theory Spec2Isabelle
  imports Complex_Main
begin

section \<open>The partitioned coupling drivers of the dumux adapter\<close>

text \<open>
  The development embeds \<^verbatim>\<open>main\<close> of
  \<^verbatim>\<open>appl/conjugateheattransfer/iterative/main_solidenergy.cc\<close> (the solid-energy
  driver with its coupling time loop) and the output calls of \<^verbatim>\<open>main\<close> in
  \<^verbatim>\<open>examples/ff-pm/partitioned/eggenweiler-rybak-2d/main_darcy.cc\<close>.

  The driver is a coordination layer: it owns three solution vectors (\<^verbatim>\<open>sol\<close>,
  \<^verbatim>\<open>solOld\<close>, \<^verbatim>\<open>sol_checkpoint\<close>) and calls into objects it does not implement
  (the coupling library, the time loop, the Newton solver, the grid variables, the output
  module). Those objects are parameters of the model: a record of operations over abstract
  state types. Every call the driver makes on them is also appended to a trace, in program
  order, so that the order of calls can be stated. Calls that only print (the start and end
  messages, the parameter report) and the queries for data identifiers, whose results the
  driver does not use, are left out.

  \<^verbatim>\<open>Scalar\<close> is \<^verbatim>\<open>double\<close> in the source. The driver itself only compares scalars and takes
  \<^verbatim>\<open>std::max\<close>, which are exact on doubles that are not NaN; the model uses the reals.
\<close>

subsection \<open>Data\<close>

type_synonym Scalar = real

text \<open>The two action names the driver asks the coupling library about (lines 98-99).\<close>

datatype action = actionReadIterationCheckpoint | actionWriteIterationCheckpoint

text \<open>
  The exceptions that can reach the handlers of \<^verbatim>\<open>main\<close>, by dynamic type.
  \<^verbatim>\<open>Dumux::ParameterException\<close>, \<^verbatim>\<open>Dune::DGFException\<close>,
  \<^verbatim>\<open>Dune::InvalidStateException\<close> and \<^verbatim>\<open>Dumux::NumericalProblem\<close> are all derived from
  \<^verbatim>\<open>Dune::Exception\<close>; \<open>OtherDuneException\<close> stands for any other class derived from it, and
  \<open>UnknownException\<close> for anything that is not a \<^verbatim>\<open>Dune::Exception\<close>.
\<close>

datatype exn =
    ParameterException
  | DGFException
  | InvalidStateException
  | NumericalProblem
  | OtherDuneException
  | UnknownException

fun is_ParameterException :: "exn \<Rightarrow> bool" where
  "is_ParameterException ParameterException = True"
| "is_ParameterException _ = False"

fun is_DGFException :: "exn \<Rightarrow> bool" where
  "is_DGFException DGFException = True"
| "is_DGFException _ = False"

fun is_Dune_Exception :: "exn \<Rightarrow> bool" where
  "is_Dune_Exception UnknownException = False"
| "is_Dune_Exception _ = True"

text \<open>Calls on the external objects and assignments to the driver's vectors, as traced.\<close>

datatype event =
    SetMeshVertices nat "Scalar list"
  | Initialize Scalar
  | InitializeData
  | IsActionRequired action bool
  | FulfilledAction action
  | Assign_sol_checkpoint
  | SetPreviousSolution
  | Solve
  | Assign_solOld
  | GridVariables_advanceTimeStep
  | Assign_sol
  | FreeFlowGridVariables_update
  | TimeLoop_new Scalar Scalar Scalar
  | TimeLoop_setMaxTimeStepSize Scalar
  | TimeLoop_start
  | TimeLoop_advanceTimeStep
  | VtkWrite Scalar
  | TimeLoop_reportTimeStep
  | Advance Scalar Scalar
  | SuggestTimeStepSize Scalar Scalar
  | TimeLoop_setTimeStepSize Scalar
  | TimeLoop_finalize
  | Finalize
  | AnnounceSolver
  | PrintDarcyL2Error

text \<open>A sub-control-volume face, as far as the interface traversal reads it.\<close>

record scvf =
  index :: nat
  center :: "Scalar list"

text \<open>
  The external objects. \<open>'s\<close> is the solution vector, \<open>'p\<close> the state of
  \<^verbatim>\<open>precice::SolverInterface\<close>, \<open>'t\<close> of \<^verbatim>\<open>TimeLoop\<close>, \<open>'n\<close> of the Newton solver with its
  assembler, \<open>'g\<close> of a grid-variables object.

  The source names \<^verbatim>\<open>FreeFlowFVGridGeometry\<close>, \<^verbatim>\<open>freeFlowGridView\<close>,
  \<^verbatim>\<open>freeFlowFvGridGeometry\<close> and \<^verbatim>\<open>freeFlowGridVariables\<close> without declaring them; they are
  taken as given objects under their own names.

  \<^verbatim>\<open>nonLinearSolver.solve(sol, *timeLoop)\<close> reads the previous solution handed to the assembler
  and may change the solution, the time loop (time step control), the solver and the grid
  variables, or throw.
\<close>

record ('s, 'p, 't, 'n, 'g) env =
  Parameters_init :: "exn + (string \<Rightarrow> Scalar option)"
  gridManager_init :: "exn + unit"
  precice_configure :: "'p"
  precice_getDimensions :: "'p \<Rightarrow> int"
  precice_getMeshID :: "'p \<Rightarrow> int"
  precice_setMeshVertices :: "int \<Rightarrow> nat \<Rightarrow> Scalar list \<Rightarrow> 'p \<Rightarrow> 'p"
  precice_initialize :: "'p \<Rightarrow> Scalar \<times> 'p"
  precice_initializeData :: "'p \<Rightarrow> 'p"
  precice_isActionRequired :: "'p \<Rightarrow> action \<Rightarrow> bool"
  precice_fulfilledAction :: "action \<Rightarrow> 'p \<Rightarrow> 'p"
  precice_advance :: "Scalar \<Rightarrow> 'p \<Rightarrow> Scalar \<times> 'p"
  precice_isCouplingOngoing :: "'p \<Rightarrow> bool"
  precice_finalize :: "'p \<Rightarrow> 'p"
  FreeFlow_dimension :: int
  freeFlow_elements :: "scvf list list"
  freeFlow_bBoxx :: "Scalar list"
  freeFlowGridVariables_given :: "'g"
  gridVariables_update :: "'s \<Rightarrow> 'g \<Rightarrow> 'g"
  applyInitialSolution :: "'s"
  gridVariables_init :: "'s \<Rightarrow> 'g"
  gridVariables_advanceTimeStep :: "'g \<Rightarrow> 'g"
  timeLoop_new :: "Scalar \<Rightarrow> Scalar \<Rightarrow> Scalar \<Rightarrow> 't"
  timeLoop_setMaxTimeStepSize :: "Scalar \<Rightarrow> 't \<Rightarrow> 't"
  timeLoop_start :: "'t \<Rightarrow> 't"
  timeLoop_advanceTimeStep :: "'t \<Rightarrow> 't"
  timeLoop_time :: "'t \<Rightarrow> Scalar"
  timeLoop_timeStepSize :: "'t \<Rightarrow> Scalar"
  timeLoop_setTimeStepSize :: "Scalar \<Rightarrow> 't \<Rightarrow> 't"
  timeLoop_finished :: "'t \<Rightarrow> bool"
  nonLinearSolver_new :: "'n"
  nonLinearSolver_solve :: "'s \<Rightarrow> 's \<Rightarrow> 't \<Rightarrow> 'n \<Rightarrow> 'g \<Rightarrow> exn + ('s \<times> 't \<times> 'n \<times> 'g)"
  nonLinearSolver_suggestTimeStepSize :: "'n \<Rightarrow> Scalar \<Rightarrow> Scalar"

text \<open>The variables of \<^verbatim>\<open>main\<close> that are live in the time loop, and the trace.\<close>

record ('s, 'p, 't, 'n, 'g) driver =
  sol :: "'s"
  solOld :: "'s"
  sol_checkpoint :: "'s"
  precice :: "'p"
  timeLoop :: "'t"
  nonLinearSolver :: "'n"
  solidEnergyGridVariables :: "'g"
  freeFlowGridVariables :: "'g"
  trace :: "event list"

subsection \<open>Startup (lines 56-206)\<close>

text \<open>\<^verbatim>\<open>getParam<Scalar>(key)\<close> throws \<^verbatim>\<open>ParameterException\<close> when the key is not set.\<close>

definition getParam :: "(string \<Rightarrow> Scalar option) \<Rightarrow> string \<Rightarrow> exn + Scalar" where
  "getParam params key =
     (case params key of None \<Rightarrow> Inl ParameterException | Some v \<Rightarrow> Inr v)"

text \<open>
  Lines 116-123: the test on one face and the two \<^verbatim>\<open>push_back\<close>s. \<^verbatim>\<open>pos[1]\<close> is the
  second coordinate of a position; positions have the grid's world dimension, which is at
  least 2 for this test to be written at all.
\<close>

definition eps :: Scalar where
  "eps = 1 / 10000000"

fun visit_scvfs :: "Scalar list \<Rightarrow> scvf list \<Rightarrow> nat list \<times> Scalar list \<Rightarrow> nat list \<times> Scalar list" where
  "visit_scvfs bBoxx [] acc = acc"
| "visit_scvfs bBoxx (f # fs) (coupledScvfIndices, coords) =
     (let pos = center f in
      if pos ! 1 > bBoxx ! 1 - eps
      then visit_scvfs bBoxx fs (coupledScvfIndices @ [index f], coords @ pos)
      else visit_scvfs bBoxx fs (coupledScvfIndices, coords))"

text \<open>Lines 109-125: the loop over the elements.\<close>

fun visit_elements :: "Scalar list \<Rightarrow> scvf list list \<Rightarrow> nat list \<times> Scalar list \<Rightarrow> nat list \<times> Scalar list" where
  "visit_elements bBoxx [] acc = acc"
| "visit_elements bBoxx (element # elements) acc =
     visit_elements bBoxx elements (visit_scvfs bBoxx element acc)"

text \<open>
  Lines 101-130: the dimension check, the traversal and the registration of the mesh.
  \<^verbatim>\<open>coords.size() / dim\<close> is an unsigned division; \<open>dim\<close> equals the grid's dimension there,
  a positive constant of the grid type.
\<close>

definition register_mesh ::
  "('s, 'p, 't, 'n, 'g) env \<Rightarrow> 'p \<Rightarrow> exn + ('p \<times> event list)" where
  "register_mesh env p =
     (let dim = precice_getDimensions env p in
      if dim \<noteq> FreeFlow_dimension env then Inl InvalidStateException
      else
        let meshId = precice_getMeshID env p;
            (coupledScvfIndices, coords) =
               visit_elements (freeFlow_bBoxx env) (freeFlow_elements env) ([], []);
            vertexSize = length coords div nat dim
        in Inr (precice_setMeshVertices env meshId vertexSize coords p,
                [SetMeshVertices vertexSize coords]))"

text \<open>
  Lines 183-191: the three parameters, the initial step and the time loop. The parameters
  are read in the source's order, so the first missing one throws.
\<close>

definition make_timeLoop ::
  "('s, 'p, 't, 'n, 'g) env \<Rightarrow> (string \<Rightarrow> Scalar option) \<Rightarrow> Scalar \<Rightarrow> exn + ('t \<times> event list)" where
  "make_timeLoop env params preciceDt =
     (case getParam params ''TimeLoop.TEnd'' of Inl e \<Rightarrow> Inl e | Inr tEnd \<Rightarrow>
      case getParam params ''TimeLoop.MaxTimeStepSize'' of Inl e \<Rightarrow> Inl e | Inr maxDt \<Rightarrow>
      case getParam params ''TimeLoop.DtInitial'' of Inl e \<Rightarrow> Inl e | Inr dtInitial \<Rightarrow>
        let dt = max dtInitial preciceDt in
        Inr (timeLoop_setMaxTimeStepSize env maxDt (timeLoop_new env 0 dt tEnd),
             [TimeLoop_new 0 dt tEnd, TimeLoop_setMaxTimeStepSize maxDt]))"

text \<open>Lines 56-206, up to the copy into \<^verbatim>\<open>sol_checkpoint\<close>.\<close>

definition startup ::
  "('s, 'p, 't, 'n, 'g) env \<Rightarrow> exn + ('s, 'p, 't, 'n, 'g) driver" where
  "startup env =
     (case Parameters_init env of Inl e \<Rightarrow> Inl e | Inr params \<Rightarrow>
      case gridManager_init env of Inl e \<Rightarrow> Inl e | Inr _ \<Rightarrow>
      case register_mesh env (precice_configure env) of Inl e \<Rightarrow> Inl e | Inr (p1, tr1) \<Rightarrow>
        let sol0 = applyInitialSolution env;
            (preciceDt, p2) = precice_initialize env p1;
            p3 = precice_initializeData env p2;
            gv = gridVariables_init env sol0;
            tr2 = tr1 @ [Initialize preciceDt, InitializeData, VtkWrite 0]
        in case make_timeLoop env params preciceDt of Inl e \<Rightarrow> Inl e | Inr (tloop, tr3) \<Rightarrow>
             Inr \<lparr> sol = sol0, solOld = sol0, sol_checkpoint = sol0, precice = p3,
                   timeLoop = tloop, nonLinearSolver = nonLinearSolver_new env,
                   solidEnergyGridVariables = gv,
                   freeFlowGridVariables = freeFlowGridVariables_given env,
                   trace = tr2 @ tr3 \<rparr>)"

subsection \<open>One pass through the body of the time loop (lines 210-267)\<close>

text \<open>Lines 211-216: the checkpoint is written when the library asks for it.\<close>

definition write_checkpoint ::
  "('s, 'p, 't, 'n, 'g) env \<Rightarrow> ('s, 'p, 't, 'n, 'g) driver \<Rightarrow> ('s, 'p, 't, 'n, 'g) driver" where
  "write_checkpoint env s =
     (if precice_isActionRequired env (precice s) actionWriteIterationCheckpoint
      then s \<lparr> sol_checkpoint := sol s,
               precice := precice_fulfilledAction env actionWriteIterationCheckpoint (precice s),
               trace := trace s @ [IsActionRequired actionWriteIterationCheckpoint True,
                                   Assign_sol_checkpoint,
                                   FulfilledAction actionWriteIterationCheckpoint] \<rparr>
      else s \<lparr> trace := trace s @ [IsActionRequired actionWriteIterationCheckpoint False] \<rparr>)"

text \<open>
  Lines 225-234: the solve, then \<^verbatim>\<open>solOld = sol\<close> and the grid variables' time step, both
  before the library is asked whether the iteration is to be repeated.
\<close>

definition solve_step ::
  "('s, 'p, 't, 'n, 'g) env \<Rightarrow> ('s, 'p, 't, 'n, 'g) driver \<Rightarrow> exn + ('s, 'p, 't, 'n, 'g) driver" where
  "solve_step env s =
     (case nonLinearSolver_solve env (sol s) (solOld s) (timeLoop s) (nonLinearSolver s)
             (solidEnergyGridVariables s) of
        Inl e \<Rightarrow> Inl e
      | Inr (sol', tl', n', g') \<Rightarrow>
          Inr (s \<lparr> sol := sol', solOld := sol', timeLoop := tl', nonLinearSolver := n',
                   solidEnergyGridVariables := gridVariables_advanceTimeStep env g',
                   trace := trace s @ [SetPreviousSolution, Solve, Assign_solOld,
                                       GridVariables_advanceTimeStep] \<rparr>))"

text \<open>Lines 238-241: the branch taken when the checkpoint is to be read.\<close>

definition read_checkpoint ::
  "('s, 'p, 't, 'n, 'g) env \<Rightarrow> ('s, 'p, 't, 'n, 'g) driver \<Rightarrow> ('s, 'p, 't, 'n, 'g) driver" where
  "read_checkpoint env s =
     s \<lparr> sol := sol_checkpoint s,
         freeFlowGridVariables := gridVariables_update env (sol_checkpoint s) (freeFlowGridVariables s),
         precice := precice_fulfilledAction env actionWriteIterationCheckpoint (precice s),
         trace := trace s @ [IsActionRequired actionReadIterationCheckpoint True,
                             Assign_sol,
                             FreeFlowGridVariables_update,
                             FulfilledAction actionWriteIterationCheckpoint] \<rparr>"

text \<open>Lines 245-265: the branch taken when the coupling iteration is accepted.\<close>

definition coupling_successful ::
  "('s, 'p, 't, 'n, 'g) env \<Rightarrow> ('s, 'p, 't, 'n, 'g) driver \<Rightarrow> ('s, 'p, 't, 'n, 'g) driver" where
  "coupling_successful env s =
     (let tl1 = timeLoop_advanceTimeStep env (timeLoop s);
          t = timeLoop_time env tl1;
          dtUsed = timeLoop_timeStepSize env tl1;
          (preciceDt, p') = precice_advance env dtUsed (precice s);
          newDt = max preciceDt (timeLoop_timeStepSize env tl1);
          suggested = nonLinearSolver_suggestTimeStepSize env (nonLinearSolver s) newDt
      in s \<lparr> timeLoop := timeLoop_setTimeStepSize env suggested tl1,
             precice := p',
             trace := trace s @ [IsActionRequired actionReadIterationCheckpoint False,
                                 TimeLoop_advanceTimeStep,
                                 VtkWrite t,
                                 TimeLoop_reportTimeStep,
                                 Advance dtUsed preciceDt,
                                 SuggestTimeStepSize newDt suggested,
                                 TimeLoop_setTimeStepSize suggested] \<rparr>)"

text \<open>Lines 210-267: the whole body.\<close>

definition loop_body ::
  "('s, 'p, 't, 'n, 'g) env \<Rightarrow> ('s, 'p, 't, 'n, 'g) driver \<Rightarrow> exn + ('s, 'p, 't, 'n, 'g) driver" where
  "loop_body env s =
     (case solve_step env (write_checkpoint env s) of
        Inl e \<Rightarrow> Inl e
      | Inr s2 \<Rightarrow>
          if precice_isActionRequired env (precice s2) actionReadIterationCheckpoint
          then Inr (read_checkpoint env s2)
          else Inr (coupling_successful env s2))"

subsection \<open>The time loop and \<^verbatim>\<open>main\<close>\<close>

text \<open>Line 268: the condition under which the body runs again.\<close>

definition loop_condition ::
  "('s, 'p, 't, 'n, 'g) env \<Rightarrow> ('s, 'p, 't, 'n, 'g) driver \<Rightarrow> bool" where
  "loop_condition env s =
     (\<not> timeLoop_finished env (timeLoop s) \<and> precice_isCouplingOngoing env (precice s))"

text \<open>
  Lines 209-268: \<^verbatim>\<open>do { ... } while (...)\<close>. The loop need not end; the first argument
  bounds the number of passes, and \<open>None\<close> says that the bound was reached.
\<close>

fun time_loop ::
  "nat \<Rightarrow> ('s, 'p, 't, 'n, 'g) env \<Rightarrow> ('s, 'p, 't, 'n, 'g) driver
     \<Rightarrow> (exn + ('s, 'p, 't, 'n, 'g) driver) option" where
  "time_loop 0 env s = None"
| "time_loop (Suc fuel) env s =
     (case loop_body env s of
        Inl e \<Rightarrow> Some (Inl e)
      | Inr s' \<Rightarrow> if loop_condition env s' then time_loop fuel env s' else Some (Inr s'))"

text \<open>Lines 270-283: what follows the loop.\<close>

definition shutdown ::
  "('s, 'p, 't, 'n, 'g) env \<Rightarrow> ('s, 'p, 't, 'n, 'g) driver \<Rightarrow> ('s, 'p, 't, 'n, 'g) driver" where
  "shutdown env s =
     s \<lparr> precice := precice_finalize env (precice s),
         trace := trace s @ [TimeLoop_finalize, Finalize] \<rparr>"

text \<open>The \<^verbatim>\<open>try\<close> block of \<^verbatim>\<open>main\<close> (lines 52-286).\<close>

definition start_timeLoop ::
  "('s, 'p, 't, 'n, 'g) env \<Rightarrow> ('s, 'p, 't, 'n, 'g) driver \<Rightarrow> ('s, 'p, 't, 'n, 'g) driver" where
  "start_timeLoop env s =
     s \<lparr> timeLoop := timeLoop_start env (timeLoop s), trace := trace s @ [TimeLoop_start] \<rparr>"

definition try_block ::
  "nat \<Rightarrow> ('s, 'p, 't, 'n, 'g) env \<Rightarrow> (exn + ('s, 'p, 't, 'n, 'g) driver) option" where
  "try_block fuel env =
     (case startup env of
        Inl e \<Rightarrow> Some (Inl e)
      | Inr s \<Rightarrow>
          (case time_loop fuel env (start_timeLoop env s) of
             None \<Rightarrow> None
           | Some (Inl e) \<Rightarrow> Some (Inl e)
           | Some (Inr s') \<Rightarrow> Some (Inr (shutdown env s'))))"

text \<open>
  Lines 287-310: the handlers, tried in the order written; a handler for a class catches
  every exception derived from it.
\<close>

definition catch_handlers :: "exn \<Rightarrow> int" where
  "catch_handlers e =
     (if is_ParameterException e then 1
      else if is_DGFException e then 2
      else if is_Dune_Exception e then 3
      else 4)"

definition main_solidenergy :: "nat \<Rightarrow> ('s, 'p, 't, 'n, 'g) env \<Rightarrow> int option" where
  "main_solidenergy fuel env =
     (case try_block fuel env of
        None \<Rightarrow> None
      | Some (Inl e) \<Rightarrow> Some (catch_handlers e)
      | Some (Inr _) \<Rightarrow> Some 0)"

subsection \<open>The Darcy driver\<close>

text \<open>
  \<^verbatim>\<open>main\<close> of \<^verbatim>\<open>main_darcy.cc\<close> (lines 130-305) has no time loop and no handler: it
  announces itself to the coupling adapter, writes a frame, solves the stationary problem
  once, writes a second frame and returns 0. An exception leaves \<^verbatim>\<open>main\<close>.
\<close>

record 's darcy_env =
  darcy_Parameters_init :: "exn + unit"
  darcy_gridManager_init :: "exn + unit"
  darcy_sol_resize :: "'s"
  darcy_solve :: "'s \<Rightarrow> exn + 's"

definition main_darcy :: "'s darcy_env \<Rightarrow> exn + (int \<times> 's \<times> event list)" where
  "main_darcy env =
     (case darcy_Parameters_init env of Inl e \<Rightarrow> Inl e | Inr _ \<Rightarrow>
      case darcy_gridManager_init env of Inl e \<Rightarrow> Inl e | Inr _ \<Rightarrow>
      case darcy_solve env (darcy_sol_resize env) of Inl e \<Rightarrow> Inl e | Inr sol' \<Rightarrow>
        Inr (0, sol', [AnnounceSolver, VtkWrite 0, Solve, VtkWrite 1, PrintDarcyL2Error]))"

subsection \<open>Reading a trace\<close>

text \<open>The times of the frames written, in order.\<close>

fun vtk_frames :: "event list \<Rightarrow> Scalar list" where
  "vtk_frames [] = []"
| "vtk_frames (VtkWrite t # evs) = t # vtk_frames evs"
| "vtk_frames (_ # evs) = vtk_frames evs"

text \<open>What one pass appended to the trace.\<close>

definition events_since ::
  "('s, 'p, 't, 'n, 'g) driver \<Rightarrow> ('s, 'p, 't, 'n, 'g) driver \<Rightarrow> event list" where
  "events_since s s' = drop (length (trace s)) (trace s')"

text \<open>
  A pass is accepted when the library answers no to the question of line 236, and rolled
  back when it answers yes.
\<close>

definition accepted :: "event list \<Rightarrow> bool" where
  "accepted evs = (IsActionRequired actionReadIterationCheckpoint False \<in> set evs)"

definition rolled_back :: "event list \<Rightarrow> bool" where
  "rolled_back evs = (IsActionRequired actionReadIterationCheckpoint True \<in> set evs)"

definition accepted_iterations :: "event list \<Rightarrow> nat" where
  "accepted_iterations evs = count_list evs (IsActionRequired actionReadIterationCheckpoint False)"

text \<open>The body run \<open>n\<close> times in a row, without looking at the loop condition.\<close>

fun passes ::
  "nat \<Rightarrow> ('s, 'p, 't, 'n, 'g) env \<Rightarrow> ('s, 'p, 't, 'n, 'g) driver
     \<Rightarrow> exn + ('s, 'p, 't, 'n, 'g) driver" where
  "passes 0 env s = Inr s"
| "passes (Suc n) env s =
     (case loop_body env s of Inl e \<Rightarrow> Inl e | Inr s' \<Rightarrow> passes n env s')"

text \<open>
  The exit codes in the words of the specification: 0 success, 1 parameter error,
  2 grid-file error, 3 framework error, 4 unknown.
\<close>

fun spec_exit_code :: "exn + 'a \<Rightarrow> int" where
  "spec_exit_code (Inr _) = 0"
| "spec_exit_code (Inl ParameterException) = 1"
| "spec_exit_code (Inl DGFException) = 2"
| "spec_exit_code (Inl InvalidStateException) = 3"
| "spec_exit_code (Inl NumericalProblem) = 3"
| "spec_exit_code (Inl OtherDuneException) = 3"
| "spec_exit_code (Inl UnknownException) = 4"

subsection \<open>A small coupled run\<close>

text \<open>
  Concrete external objects on which the driver can be run. The solution vector is a
  number that each solve increases by one. The coupling library counts the acknowledgements
  and the calls of \<^verbatim>\<open>advance\<close> it has seen: it asks for a checkpoint at the start, asks
  twice for the checkpoint to be read, allows the step 1/4 and ends the coupling after two
  calls of \<^verbatim>\<open>advance\<close>. The time loop is (time, step, end). The grid has two elements with
  two faces each, two of the four on the top boundary \<open>y = 1\<close>.
\<close>

definition sample_params :: "string \<Rightarrow> Scalar option" where
  "sample_params =
     [''TimeLoop.TEnd'' \<mapsto> 10, ''TimeLoop.MaxTimeStepSize'' \<mapsto> 1, ''TimeLoop.DtInitial'' \<mapsto> 1 / 2]"

fun sample_isActionRequired :: "nat \<times> nat \<Rightarrow> action \<Rightarrow> bool" where
  "sample_isActionRequired (acks, advances) actionWriteIterationCheckpoint = (acks = 0)"
| "sample_isActionRequired (acks, advances) actionReadIterationCheckpoint = (1 \<le> acks \<and> acks \<le> 2)"

definition sample_env :: "(int, nat \<times> nat, Scalar \<times> Scalar \<times> Scalar, unit, nat) env" where
  "sample_env =
     \<lparr> Parameters_init = Inr sample_params,
       gridManager_init = Inr (),
       precice_configure = (0, 0),
       precice_getDimensions = (\<lambda>p. 2),
       precice_getMeshID = (\<lambda>p. 0),
       precice_setMeshVertices = (\<lambda>meshId vertexSize coords p. p),
       precice_initialize = (\<lambda>p. (1 / 4, p)),
       precice_initializeData = (\<lambda>p. p),
       precice_isActionRequired = sample_isActionRequired,
       precice_fulfilledAction = (\<lambda>a (acks, advances). (Suc acks, advances)),
       precice_advance = (\<lambda>dt (acks, advances). (1 / 4, (acks, Suc advances))),
       precice_isCouplingOngoing = (\<lambda>(acks, advances). advances < 2),
       precice_finalize = (\<lambda>p. p),
       FreeFlow_dimension = 2,
       freeFlow_elements =
         [[\<lparr>index = 0, center = [1 / 2, 0]\<rparr>, \<lparr>index = 1, center = [1 / 2, 1]\<rparr>],
          [\<lparr>index = 2, center = [3 / 2, 1]\<rparr>, \<lparr>index = 3, center = [3 / 2, 0]\<rparr>]],
       freeFlow_bBoxx = [2, 1],
       freeFlowGridVariables_given = 0,
       gridVariables_update = (\<lambda>s g. Suc g),
       applyInitialSolution = 0,
       gridVariables_init = (\<lambda>s. 0),
       gridVariables_advanceTimeStep = (\<lambda>g. Suc g),
       timeLoop_new = (\<lambda>startTime dt tEnd. (startTime, dt, tEnd)),
       timeLoop_setMaxTimeStepSize = (\<lambda>maxDt (t, dt, tEnd). (t, min dt maxDt, tEnd)),
       timeLoop_start = (\<lambda>tloop. tloop),
       timeLoop_advanceTimeStep = (\<lambda>(t, dt, tEnd). (t + dt, dt, tEnd)),
       timeLoop_time = (\<lambda>(t, dt, tEnd). t),
       timeLoop_timeStepSize = (\<lambda>(t, dt, tEnd). dt),
       timeLoop_setTimeStepSize = (\<lambda>dt' (t, dt, tEnd). (t, dt', tEnd)),
       timeLoop_finished = (\<lambda>(t, dt, tEnd). tEnd \<le> t),
       nonLinearSolver_new = (),
       nonLinearSolver_solve = (\<lambda>sol solOld tloop n g. Inr (sol + 1, tloop, n, g)),
       nonLinearSolver_suggestTimeStepSize = (\<lambda>n dt. dt) \<rparr>"

text \<open>The same run on a grid none of whose faces lies on the top boundary.\<close>

definition empty_interface_env :: "(int, nat \<times> nat, Scalar \<times> Scalar \<times> Scalar, unit, nat) env" where
  "empty_interface_env =
     sample_env \<lparr> freeFlow_elements :=
       [[\<lparr>index = 0, center = [1 / 2, 0]\<rparr>], [\<lparr>index = 3, center = [3 / 2, 0]\<rparr>]] \<rparr>"

text \<open>The state in which the sample run enters the time loop.\<close>

definition sample_start :: "(int, nat \<times> nat, Scalar \<times> Scalar \<times> Scalar, unit, nat) driver" where
  "sample_start =
     \<lparr> sol = 0, solOld = 0, sol_checkpoint = 0, precice = (0, 0),
       timeLoop = (0, 1 / 2, 10), nonLinearSolver = (),
       solidEnergyGridVariables = 0, freeFlowGridVariables = 0,
       trace = [SetMeshVertices 2 [1 / 2, 1, 3 / 2, 1], Initialize (1 / 4), InitializeData,
                VtkWrite 0, TimeLoop_new 0 (1 / 2) 10, TimeLoop_setMaxTimeStepSize 1,
                TimeLoop_start] \<rparr>"

definition sample_darcy_env :: "int darcy_env" where
  "sample_darcy_env =
     \<lparr> darcy_Parameters_init = Inr (), darcy_gridManager_init = Inr (),
       darcy_sol_resize = 0, darcy_solve = (\<lambda>sol. Inr (sol + 1)) \<rparr>"

text \<open>The states after each of the four passes of the sample run.\<close>

definition sample_pass1 :: "(int, nat \<times> nat, Scalar \<times> Scalar \<times> Scalar, unit, nat) driver" where
  "sample_pass1 =
     \<lparr> sol = 0, solOld = 1, sol_checkpoint = 0, precice = (2, 0),
       timeLoop = (0, 1 / 2, 10), nonLinearSolver = (),
       solidEnergyGridVariables = 1, freeFlowGridVariables = 1,
       trace = trace sample_start @
         [IsActionRequired actionWriteIterationCheckpoint True, Assign_sol_checkpoint,
          FulfilledAction actionWriteIterationCheckpoint,
          SetPreviousSolution, Solve, Assign_solOld, GridVariables_advanceTimeStep,
          IsActionRequired actionReadIterationCheckpoint True, Assign_sol,
          FreeFlowGridVariables_update, FulfilledAction actionWriteIterationCheckpoint] \<rparr>"

definition sample_pass2 :: "(int, nat \<times> nat, Scalar \<times> Scalar \<times> Scalar, unit, nat) driver" where
  "sample_pass2 =
     \<lparr> sol = 0, solOld = 1, sol_checkpoint = 0, precice = (3, 0),
       timeLoop = (0, 1 / 2, 10), nonLinearSolver = (),
       solidEnergyGridVariables = 2, freeFlowGridVariables = 2,
       trace = trace sample_pass1 @
         [IsActionRequired actionWriteIterationCheckpoint False,
          SetPreviousSolution, Solve, Assign_solOld, GridVariables_advanceTimeStep,
          IsActionRequired actionReadIterationCheckpoint True, Assign_sol,
          FreeFlowGridVariables_update, FulfilledAction actionWriteIterationCheckpoint] \<rparr>"

definition sample_pass3 :: "(int, nat \<times> nat, Scalar \<times> Scalar \<times> Scalar, unit, nat) driver" where
  "sample_pass3 =
     \<lparr> sol = 1, solOld = 1, sol_checkpoint = 0, precice = (3, 1),
       timeLoop = (1 / 2, 1 / 2, 10), nonLinearSolver = (),
       solidEnergyGridVariables = 3, freeFlowGridVariables = 2,
       trace = trace sample_pass2 @
         [IsActionRequired actionWriteIterationCheckpoint False,
          SetPreviousSolution, Solve, Assign_solOld, GridVariables_advanceTimeStep,
          IsActionRequired actionReadIterationCheckpoint False,
          TimeLoop_advanceTimeStep, VtkWrite (1 / 2), TimeLoop_reportTimeStep,
          Advance (1 / 2) (1 / 4), SuggestTimeStepSize (1 / 2) (1 / 2),
          TimeLoop_setTimeStepSize (1 / 2)] \<rparr>"

definition sample_pass4 :: "(int, nat \<times> nat, Scalar \<times> Scalar \<times> Scalar, unit, nat) driver" where
  "sample_pass4 =
     \<lparr> sol = 2, solOld = 2, sol_checkpoint = 0, precice = (3, 2),
       timeLoop = (1, 1 / 2, 10), nonLinearSolver = (),
       solidEnergyGridVariables = 4, freeFlowGridVariables = 2,
       trace = trace sample_pass3 @
         [IsActionRequired actionWriteIterationCheckpoint False,
          SetPreviousSolution, Solve, Assign_solOld, GridVariables_advanceTimeStep,
          IsActionRequired actionReadIterationCheckpoint False,
          TimeLoop_advanceTimeStep, VtkWrite 1, TimeLoop_reportTimeStep,
          Advance (1 / 2) (1 / 4), SuggestTimeStepSize (1 / 2) (1 / 2),
          TimeLoop_setTimeStepSize (1 / 2)] \<rparr>"

section \<open>Properties\<close>

subsection \<open>Auxiliary facts\<close>

lemmas body_defs = loop_body_def solve_step_def write_checkpoint_def read_checkpoint_def
  coupling_successful_def Let_def

lemma vtk_frames_append: "vtk_frames (xs @ ys) = vtk_frames xs @ vtk_frames ys"
  by (induction xs rule: vtk_frames.induct) simp_all

lemma accepted_iterations_append:
  "accepted_iterations (xs @ ys) = accepted_iterations xs + accepted_iterations ys"
  by (simp add: accepted_iterations_def)

lemma events_since_append: "trace s' = trace s @ evs \<Longrightarrow> events_since s s' = evs"
  by (simp add: events_since_def)

text \<open>What one pass appends: a frame exactly when it counts as accepted.\<close>

lemma loop_body_frames:
  assumes "loop_body env s = Inr s'"
  shows "\<exists>evs. trace s' = trace s @ evs \<and> length (vtk_frames evs) = accepted_iterations evs"
  using assms
  by (auto simp: body_defs accepted_iterations_def split: sum.splits prod.splits if_splits)

lemma time_loop_frames:
  "time_loop fuel env s = Some (Inr s') \<Longrightarrow>
     \<exists>evs. trace s' = trace s @ evs \<and> length (vtk_frames evs) = accepted_iterations evs"
proof (induction fuel arbitrary: s)
  case 0
  then show ?case by simp
next
  case (Suc fuel)
  from Suc.prems obtain s1 where body: "loop_body env s = Inr s1"
    by (cases "loop_body env s") auto
  from loop_body_frames [OF body] obtain evs1
    where evs1: "trace s1 = trace s @ evs1" "length (vtk_frames evs1) = accepted_iterations evs1"
    by blast
  show ?case
  proof (cases "loop_condition env s1")
    case True
    with Suc.prems body have "time_loop fuel env s1 = Some (Inr s')" by simp
    from Suc.IH [OF this] obtain evs2
      where evs2: "trace s' = trace s1 @ evs2" "length (vtk_frames evs2) = accepted_iterations evs2"
      by blast
    have "trace s' = trace s @ (evs1 @ evs2)" using evs1 evs2 by simp
    moreover have "length (vtk_frames (evs1 @ evs2)) = accepted_iterations (evs1 @ evs2)"
      using evs1 evs2 by (simp add: vtk_frames_append accepted_iterations_append)
    ultimately show ?thesis by blast
  next
    case False
    with Suc.prems body have "s' = s1" by simp
    with evs1 show ?thesis by blast
  qed
qed

lemma passes_frames:
  "passes n env s = Inr s' \<Longrightarrow>
     \<exists>evs. trace s' = trace s @ evs \<and> length (vtk_frames evs) = accepted_iterations evs"
proof (induction n arbitrary: s)
  case 0
  then show ?case by (simp add: accepted_iterations_def)
next
  case (Suc n)
  from Suc.prems obtain s1 where body: "loop_body env s = Inr s1"
    and rest: "passes n env s1 = Inr s'"
    by (cases "loop_body env s") auto
  from loop_body_frames [OF body] obtain evs1
    where evs1: "trace s1 = trace s @ evs1" "length (vtk_frames evs1) = accepted_iterations evs1"
    by blast
  from Suc.IH [OF rest] obtain evs2
    where evs2: "trace s' = trace s1 @ evs2" "length (vtk_frames evs2) = accepted_iterations evs2"
    by blast
  have "trace s' = trace s @ (evs1 @ evs2)" using evs1 evs2 by simp
  moreover have "length (vtk_frames (evs1 @ evs2)) = accepted_iterations (evs1 @ evs2)"
    using evs1 evs2 by (simp add: vtk_frames_append accepted_iterations_append)
  ultimately show ?case by blast
qed

lemma startup_frames:
  assumes "startup env = Inr s"
  shows "vtk_frames (trace s) = [0] \<and> accepted_iterations (trace s) = 0"
  using assms
  by (auto simp: startup_def register_mesh_def make_timeLoop_def Let_def accepted_iterations_def
        vtk_frames_append split: sum.splits prod.splits if_splits)

text \<open>The sample run, pass by pass.\<close>

lemma sample_startup:
  "startup sample_env = Inr (sample_start \<lparr>trace := butlast (trace sample_start)\<rparr>)"
  by (simp add: startup_def sample_env_def sample_start_def register_mesh_def make_timeLoop_def
        getParam_def sample_params_def eps_def Let_def)

lemma sample_start_timeLoop:
  "start_timeLoop sample_env (sample_start \<lparr>trace := butlast (trace sample_start)\<rparr>) = sample_start"
  by (simp add: start_timeLoop_def sample_env_def sample_start_def)

lemma sample_loop_body1: "loop_body sample_env sample_start = Inr sample_pass1"
  by (simp add: body_defs sample_env_def sample_start_def sample_pass1_def)

lemma sample_loop_body2: "loop_body sample_env sample_pass1 = Inr sample_pass2"
  by (simp add: body_defs sample_env_def sample_pass1_def sample_pass2_def)

lemma sample_loop_body3: "loop_body sample_env sample_pass2 = Inr sample_pass3"
  by (simp add: body_defs sample_env_def sample_pass2_def sample_pass3_def)

lemma sample_loop_body4: "loop_body sample_env sample_pass3 = Inr sample_pass4"
  by (simp add: body_defs sample_env_def sample_pass3_def sample_pass4_def)

lemma sample_loop_condition:
  "loop_condition sample_env sample_pass1" "loop_condition sample_env sample_pass2"
  "loop_condition sample_env sample_pass3" "\<not> loop_condition sample_env sample_pass4"
  by (simp_all add: loop_condition_def sample_env_def sample_pass1_def sample_pass2_def
        sample_pass3_def sample_pass4_def)

lemma sample_time_loop: "time_loop 4 sample_env sample_start = Some (Inr sample_pass4)"
  by (simp add: eval_nat_numeral sample_loop_body1 sample_loop_body2 sample_loop_body3
        sample_loop_body4 sample_loop_condition)

lemma sample_events:
  "events_since sample_start sample_pass1 =
     [IsActionRequired actionWriteIterationCheckpoint True, Assign_sol_checkpoint,
      FulfilledAction actionWriteIterationCheckpoint,
      SetPreviousSolution, Solve, Assign_solOld, GridVariables_advanceTimeStep,
      IsActionRequired actionReadIterationCheckpoint True, Assign_sol,
      FreeFlowGridVariables_update, FulfilledAction actionWriteIterationCheckpoint]"
  "events_since sample_pass1 sample_pass2 =
     [IsActionRequired actionWriteIterationCheckpoint False,
      SetPreviousSolution, Solve, Assign_solOld, GridVariables_advanceTimeStep,
      IsActionRequired actionReadIterationCheckpoint True, Assign_sol,
      FreeFlowGridVariables_update, FulfilledAction actionWriteIterationCheckpoint]"
  "events_since sample_pass2 sample_pass3 =
     [IsActionRequired actionWriteIterationCheckpoint False,
      SetPreviousSolution, Solve, Assign_solOld, GridVariables_advanceTimeStep,
      IsActionRequired actionReadIterationCheckpoint False,
      TimeLoop_advanceTimeStep, VtkWrite (1 / 2), TimeLoop_reportTimeStep,
      Advance (1 / 2) (1 / 4), SuggestTimeStepSize (1 / 2) (1 / 2),
      TimeLoop_setTimeStepSize (1 / 2)]"
  by (simp_all add: events_since_def sample_pass1_def sample_pass2_def sample_pass3_def)

text \<open>
  Two facts about every pass that completes, whatever the external objects do: the driver
  never acknowledges \<^verbatim>\<open>readCheckpoint\<close>, and \<^verbatim>\<open>solOld\<close> ends up as the solution the
  solve returned, whether the pass is accepted or rolled back.
\<close>

lemma readCheckpoint_never_acknowledged:
  assumes "loop_body env s = Inr s'"
  shows "FulfilledAction actionReadIterationCheckpoint \<notin> set (events_since s s')"
  using assms
  by (auto simp: body_defs events_since_def split: sum.splits prod.splits if_splits)

lemma rollback_acknowledges_writeCheckpoint:
  assumes "loop_body env s = Inr s'" and "rolled_back (events_since s s')"
  shows "last (events_since s s') = FulfilledAction actionWriteIterationCheckpoint"
  using assms
  by (auto simp: body_defs events_since_def rolled_back_def
        split: sum.splits prod.splits if_splits)

lemma solOld_assigned_on_every_pass:
  assumes "loop_body env s = Inr s'"
  shows "\<exists>sol' tloop n g.
           nonLinearSolver_solve env (sol s) (solOld s) (timeLoop s) (nonLinearSolver s)
             (solidEnergyGridVariables s) = Inr (sol', tloop, n, g) \<and>
           solOld s' = sol' \<and>
           Assign_solOld \<in> set (events_since s s')"
  using assms
  by (auto simp: body_defs events_since_def split: sum.splits prod.splits if_splits)

lemma sample_passes3: "passes 3 sample_env sample_start = Inr sample_pass3"
  by (simp add: eval_nat_numeral sample_loop_body1 sample_loop_body2 sample_loop_body3)

subsection \<open>The claims\<close>

text \<open>
  C1, as amended. On a pass in which \<^verbatim>\<open>advance(dtUsed)\<close> is called and returns
  \<^verbatim>\<open>preciceDt\<close>, the step installed in the time loop is what the Newton solver suggests for
  \<^verbatim>\<open>max(preciceDt, dtUsed)\<close>: the value handed to the solver is at least \<^verbatim>\<open>preciceDt\<close>,
  and \<^verbatim>\<open>preciceDt\<close> is no upper bound on the installed step. On a rolled-back pass
  \<^verbatim>\<open>advance\<close> is not called and no step is installed.
\<close>

theorem installed_step_is_suggestion_for_max:
  assumes "loop_body env s = Inr s'"
  shows "(Advance dtUsed preciceDt \<in> set (events_since s s') \<longrightarrow>
           accepted (events_since s s') \<and>
           preciceDt \<le> max preciceDt dtUsed \<and>
           last (trace s') = TimeLoop_setTimeStepSize
             (nonLinearSolver_suggestTimeStepSize env (nonLinearSolver s') (max preciceDt dtUsed)) \<and>
           (\<exists>tloop. timeLoop_timeStepSize env tloop = dtUsed \<and>
              timeLoop s' = timeLoop_setTimeStepSize env
                (nonLinearSolver_suggestTimeStepSize env (nonLinearSolver s') (max preciceDt dtUsed))
                tloop)) \<and>
         (rolled_back (events_since s s') \<longrightarrow>
            (\<forall>d p. Advance d p \<notin> set (events_since s s')) \<and>
            (\<forall>x. TimeLoop_setTimeStepSize x \<notin> set (events_since s s')))"
  using assms
  by (auto simp: body_defs events_since_def accepted_def rolled_back_def
        split: sum.splits prod.splits if_splits)

theorem installed_step_is_suggestion_for_max_witness:
  "loop_body sample_env sample_pass2 = Inr sample_pass3 \<and>
   Advance (1 / 2) (1 / 4) \<in> set (events_since sample_pass2 sample_pass3) \<and>
   accepted (events_since sample_pass2 sample_pass3) \<and>
   last (trace sample_pass3) = TimeLoop_setTimeStepSize (1 / 2) \<and>
   loop_body sample_env sample_start = Inr sample_pass1 \<and>
   rolled_back (events_since sample_start sample_pass1) \<and>
   (\<forall>d p. Advance d p \<notin> set (events_since sample_start sample_pass1))"
proof -
  have adv: "Advance (1 / 2) (1 / 4) \<in> set (events_since sample_pass2 sample_pass3)"
    by (simp add: sample_events)
  have rb: "rolled_back (events_since sample_start sample_pass1)"
    by (simp add: rolled_back_def sample_events)
  have lst: "last (trace sample_pass3) = TimeLoop_setTimeStepSize (1 / 2)"
    by (simp add: sample_pass3_def)
  from installed_step_is_suggestion_for_max [OF sample_loop_body3, of "1 / 2" "1 / 4"]
    installed_step_is_suggestion_for_max [OF sample_loop_body1]
    adv rb lst sample_loop_body1 sample_loop_body3
  show ?thesis by blast
qed

theorem installed_step_exceeds_preciceDt:
  "loop_body sample_env sample_pass2 = Inr sample_pass3 \<and>
   Advance (1 / 2) (1 / 4) \<in> set (events_since sample_pass2 sample_pass3) \<and>
   \<not> timeLoop_timeStepSize sample_env (timeLoop sample_pass3) \<le> 1 / 4"
proof -
  have "timeLoop_timeStepSize sample_env (timeLoop sample_pass3) = 1 / 2"
    by (simp add: sample_env_def sample_pass3_def)
  then show ?thesis
    by (simp add: sample_loop_body3 sample_events)
qed

text \<open>
  C2. On the sample run's first pass the library asks for the checkpoint to be read. The
  driver restores \<^verbatim>\<open>sol\<close>, updates the grid variables and then acknowledges
  \<^verbatim>\<open>writeCheckpoint\<close>; \<^verbatim>\<open>readCheckpoint\<close> is never acknowledged.
\<close>

theorem read_checkpoint_acknowledges_write:
  "loop_body sample_env sample_start = Inr sample_pass1 \<and>
   events_since sample_start sample_pass1 =
     [IsActionRequired actionWriteIterationCheckpoint True, Assign_sol_checkpoint,
      FulfilledAction actionWriteIterationCheckpoint,
      SetPreviousSolution, Solve, Assign_solOld, GridVariables_advanceTimeStep,
      IsActionRequired actionReadIterationCheckpoint True, Assign_sol,
      FreeFlowGridVariables_update, FulfilledAction actionWriteIterationCheckpoint] \<and>
   FulfilledAction actionReadIterationCheckpoint \<notin> set (trace sample_pass1)"
  by (simp add: sample_loop_body1 sample_events)
    (simp add: sample_pass1_def sample_start_def)

text \<open>
  C3. On the same rolled-back pass \<^verbatim>\<open>solOld\<close> changes from 0 to the rejected iterate 1,
  while \<^verbatim>\<open>sol\<close> is set back to the checkpoint 0.
\<close>

theorem solOld_changes_on_rollback:
  "loop_body sample_env sample_start = Inr sample_pass1 \<and>
   rolled_back (events_since sample_start sample_pass1) \<and>
   solOld sample_start = 0 \<and> solOld sample_pass1 = 1 \<and> sol sample_pass1 = 0"
  by (simp add: sample_loop_body1 sample_events rolled_back_def)
    (simp add: sample_pass1_def sample_start_def)

text \<open>
  C4. In a pass of the loop body that completes, exactly one of "accepted" and "rolled back"
  holds; a frame is written in the pass if and only if it is accepted, in which case it is
  one frame; a rolled-back pass leaves the frames as they were.
\<close>

theorem vtk_frame_iff_accepted:
  assumes "loop_body env s = Inr s'"
  shows "trace s' = trace s @ events_since s s' \<and>
         accepted (events_since s s') = (\<not> rolled_back (events_since s s')) \<and>
         ((\<exists>t. VtkWrite t \<in> set (events_since s s')) \<longleftrightarrow> accepted (events_since s s')) \<and>
         (rolled_back (events_since s s') \<longrightarrow> vtk_frames (trace s') = vtk_frames (trace s)) \<and>
         (accepted (events_since s s') \<longrightarrow> (\<exists>t. vtk_frames (trace s') = vtk_frames (trace s) @ [t]))"
  using assms
  by (auto simp: body_defs events_since_def rolled_back_def accepted_def vtk_frames_append
        split: sum.splits prod.splits if_splits)

theorem vtk_frame_iff_accepted_witness:
  "loop_body sample_env sample_pass2 = Inr sample_pass3 \<and>
   accepted (events_since sample_pass2 sample_pass3) \<and>
   (\<exists>t. vtk_frames (trace sample_pass3) = vtk_frames (trace sample_pass2) @ [t]) \<and>
   loop_body sample_env sample_pass1 = Inr sample_pass2 \<and>
   rolled_back (events_since sample_pass1 sample_pass2) \<and>
   vtk_frames (trace sample_pass2) = vtk_frames (trace sample_pass1)"
proof -
  have acc: "accepted (events_since sample_pass2 sample_pass3)"
    by (simp add: accepted_def sample_events)
  have rb: "rolled_back (events_since sample_pass1 sample_pass2)"
    by (simp add: rolled_back_def sample_events)
  from vtk_frame_iff_accepted [OF sample_loop_body3] vtk_frame_iff_accepted [OF sample_loop_body2]
    acc rb sample_loop_body2 sample_loop_body3
  show ?thesis by blast
qed

text \<open>
  C5, as amended. When no face of the traversal passes the test of line 118, nothing fails
  on that account: if the dimensions agree, the coordinate array is empty, the vertex count
  is 0 and \<^verbatim>\<open>setMeshVertices\<close> is called with them, so a mesh of size zero is
  registered, and with the parameters in place startup runs to its end. The dimension
  mismatch is the only failure raised by the interface code before the registration.
\<close>

theorem empty_interface_is_registered:
  assumes "\<forall>element \<in> set (freeFlow_elements env). \<forall>f \<in> set element.
             \<not> center f ! 1 > freeFlow_bBoxx env ! 1 - eps"
    and "0 < FreeFlow_dimension env"
  shows "(precice_getDimensions env p = FreeFlow_dimension env \<longrightarrow>
            register_mesh env p =
              Inr (precice_setMeshVertices env (precice_getMeshID env p) 0 [] p,
                   [SetMeshVertices 0 []])) \<and>
         (register_mesh env p = Inl e \<longleftrightarrow>
            precice_getDimensions env p \<noteq> FreeFlow_dimension env \<and> e = InvalidStateException) \<and>
         (Parameters_init env = Inr params \<and> gridManager_init env = Inr u \<and>
          precice_getDimensions env (precice_configure env) = FreeFlow_dimension env \<and>
          params ''TimeLoop.TEnd'' = Some tEnd \<and>
          params ''TimeLoop.MaxTimeStepSize'' = Some maxDt \<and>
          params ''TimeLoop.DtInitial'' = Some dtInitial \<longrightarrow>
            (\<exists>s. startup env = Inr s \<and> hd (trace s) = SetMeshVertices 0 []))"
proof -
  have scvfs: "visit_scvfs b fs acc = acc"
    if "\<forall>f \<in> set fs. \<not> center f ! 1 > b ! 1 - eps" for b fs and acc :: "nat list \<times> Scalar list"
    using that by (induction b fs acc rule: visit_scvfs.induct) (simp_all add: Let_def)
  have elements: "visit_elements b es acc = acc"
    if "\<forall>element \<in> set es. \<forall>f \<in> set element. \<not> center f ! 1 > b ! 1 - eps"
    for b es and acc :: "nat list \<times> Scalar list"
    using that by (induction es arbitrary: acc) (simp_all add: scvfs)
  have reg: "register_mesh env q =
      (if precice_getDimensions env q \<noteq> FreeFlow_dimension env then Inl InvalidStateException
       else Inr (precice_setMeshVertices env (precice_getMeshID env q) 0 [] q,
                 [SetMeshVertices 0 []]))" for q
    by (simp add: register_mesh_def elements [OF assms(1)])
  have first: "register_mesh env p =
      Inr (precice_setMeshVertices env (precice_getMeshID env p) 0 [] p, [SetMeshVertices 0 []])"
    if "precice_getDimensions env p = FreeFlow_dimension env"
    using that by (simp add: reg)
  have second: "register_mesh env p = Inl e \<longleftrightarrow>
      precice_getDimensions env p \<noteq> FreeFlow_dimension env \<and> e = InvalidStateException"
    by (auto simp: reg)
  have third: "\<exists>s. startup env = Inr s \<and> hd (trace s) = SetMeshVertices 0 []"
    if "Parameters_init env = Inr params" "gridManager_init env = Inr u"
      "precice_getDimensions env (precice_configure env) = FreeFlow_dimension env"
      "params ''TimeLoop.TEnd'' = Some tEnd" "params ''TimeLoop.MaxTimeStepSize'' = Some maxDt"
      "params ''TimeLoop.DtInitial'' = Some dtInitial"
    using that
    by (simp add: startup_def reg make_timeLoop_def getParam_def Let_def split: prod.splits)
  from first second third show ?thesis by blast
qed

theorem empty_interface_is_registered_witness:
  "freeFlow_elements empty_interface_env =
     [[\<lparr>index = 0, center = [1 / 2, 0]\<rparr>], [\<lparr>index = 3, center = [3 / 2, 0]\<rparr>]] \<and>
   freeFlow_bBoxx empty_interface_env = [2, 1] \<and>
   precice_getDimensions empty_interface_env (0, 0) = FreeFlow_dimension empty_interface_env \<and>
   0 < FreeFlow_dimension empty_interface_env \<and>
   register_mesh empty_interface_env (0, 0) = Inr ((0, 0), [SetMeshVertices 0 []]) \<and>
   (\<exists>s. startup empty_interface_env = Inr s \<and> hd (trace s) = SetMeshVertices 0 [])"
proof -
  have a: "\<forall>element \<in> set (freeFlow_elements empty_interface_env). \<forall>f \<in> set element.
      \<not> center f ! 1 > freeFlow_bBoxx empty_interface_env ! 1 - eps"
    by (simp add: empty_interface_env_def sample_env_def eps_def)
  have b: "precice_getDimensions empty_interface_env (0, 0) = FreeFlow_dimension empty_interface_env"
    by (simp add: empty_interface_env_def sample_env_def)
  have c: "0 < FreeFlow_dimension empty_interface_env"
    by (simp add: empty_interface_env_def sample_env_def)
  have d: "Parameters_init empty_interface_env = Inr sample_params \<and>
      gridManager_init empty_interface_env = Inr () \<and>
      precice_getDimensions empty_interface_env (precice_configure empty_interface_env) =
        FreeFlow_dimension empty_interface_env \<and>
      sample_params ''TimeLoop.TEnd'' = Some 10 \<and>
      sample_params ''TimeLoop.MaxTimeStepSize'' = Some 1 \<and>
      sample_params ''TimeLoop.DtInitial'' = Some (1 / 2)"
    by (simp add: empty_interface_env_def sample_env_def sample_params_def)
  have e: "freeFlow_elements empty_interface_env =
     [[\<lparr>index = 0, center = [1 / 2, 0]\<rparr>], [\<lparr>index = 3, center = [3 / 2, 0]\<rparr>]] \<and>
     freeFlow_bBoxx empty_interface_env = [2, 1] \<and>
     precice_setMeshVertices empty_interface_env
       (precice_getMeshID empty_interface_env (0, 0)) 0 [] (0, 0) = (0, 0)"
    by (simp add: empty_interface_env_def sample_env_def)
  from empty_interface_is_registered
         [OF a c, of "(0, 0)" UnknownException sample_params "()" 10 1 "1 / 2"] b c d e
  show ?thesis by simp
qed

theorem empty_interface_does_not_fail:
  "map_sum id trace (startup empty_interface_env) =
     Inr [SetMeshVertices 0 [], Initialize (1 / 4), InitializeData, VtkWrite 0,
          TimeLoop_new 0 (1 / 2) 10, TimeLoop_setMaxTimeStepSize 1]"
  by (simp add: startup_def empty_interface_env_def sample_env_def register_mesh_def
        make_timeLoop_def getParam_def sample_params_def eps_def Let_def)

text \<open>
  C6. When startup succeeds, the time loop is constructed with start time 0 and the step
  \<^verbatim>\<open>max(userDtInitial, preciceInitDt)\<close>, where \<^verbatim>\<open>userDtInitial\<close> is the parameter
  \<^verbatim>\<open>TimeLoop.DtInitial\<close> and \<^verbatim>\<open>preciceInitDt\<close> is what \<^verbatim>\<open>initialize()\<close> returned.
\<close>

theorem initial_dt_is_max:
  assumes "startup env = Inr s"
    and "Parameters_init env = Inr params"
    and "params ''TimeLoop.DtInitial'' = Some userDtInitial"
    and "Initialize preciceInitDt \<in> set (trace s)"
  shows "\<exists>tEnd maxDt.
           TimeLoop_new 0 (max userDtInitial preciceInitDt) tEnd \<in> set (trace s) \<and>
           timeLoop s = timeLoop_setMaxTimeStepSize env maxDt
                          (timeLoop_new env 0 (max userDtInitial preciceInitDt) tEnd)"
  using assms
  by (auto simp: startup_def register_mesh_def make_timeLoop_def getParam_def Let_def
        split: sum.splits prod.splits if_splits option.splits)

theorem initial_dt_is_max_witness:
  "startup sample_env = Inr (sample_start \<lparr>trace := butlast (trace sample_start)\<rparr>) \<and>
   Parameters_init sample_env = Inr sample_params \<and>
   sample_params ''TimeLoop.DtInitial'' = Some (1 / 2) \<and>
   Initialize (1 / 4) \<in> set (trace (sample_start \<lparr>trace := butlast (trace sample_start)\<rparr>)) \<and>
   (\<exists>tEnd. TimeLoop_new 0 (max (1 / 2) (1 / 4)) tEnd
              \<in> set (trace (sample_start \<lparr>trace := butlast (trace sample_start)\<rparr>)))"
proof -
  have a: "Parameters_init sample_env = Inr sample_params"
    by (simp add: sample_env_def)
  have b: "sample_params ''TimeLoop.DtInitial'' = Some (1 / 2)"
    by (simp add: sample_params_def)
  have c: "Initialize (1 / 4) \<in> set (trace (sample_start \<lparr>trace := butlast (trace sample_start)\<rparr>))"
    by (simp add: sample_start_def)
  from initial_dt_is_max [OF sample_startup a b c] sample_startup a b c show ?thesis
    by blast
qed

text \<open>
  C7. Across two consecutive rolled-back passes with no checkpoint written in the second,
  the second restore yields the solution the first one yielded, and the stored checkpoint is
  the same after each restore; the assignment that restores leaves the checkpoint as it was.
\<close>

theorem restore_is_idempotent:
  assumes "loop_body env s = Inr s1" and "rolled_back (events_since s s1)"
    and "loop_body env s1 = Inr s2" and "rolled_back (events_since s1 s2)"
    and "IsActionRequired actionWriteIterationCheckpoint False \<in> set (events_since s1 s2)"
  shows "sol s1 = sol_checkpoint s1 \<and> sol s2 = sol s1 \<and> sol_checkpoint s2 = sol_checkpoint s1 \<and>
         sol_checkpoint (read_checkpoint env s1) = sol_checkpoint s1 \<and>
         sol (read_checkpoint env (read_checkpoint env s1)) = sol (read_checkpoint env s1)"
proof -
  have one: "sol b = sol_checkpoint b"
    if "loop_body env a = Inr b" "rolled_back (events_since a b)" for a b
    using that
    by (auto simp: body_defs events_since_def rolled_back_def split: sum.splits prod.splits if_splits)
  have keep: "sol_checkpoint b = sol_checkpoint a"
    if "loop_body env a = Inr b"
      "IsActionRequired actionWriteIterationCheckpoint False \<in> set (events_since a b)" for a b
    using that
    by (auto simp: body_defs events_since_def split: sum.splits prod.splits if_splits)
  have "sol s1 = sol_checkpoint s1" using one assms(1,2) by blast
  moreover have "sol s2 = sol_checkpoint s2" using one assms(3,4) by blast
  moreover have "sol_checkpoint s2 = sol_checkpoint s1" using keep assms(3,5) by blast
  ultimately show ?thesis by (simp add: read_checkpoint_def)
qed

theorem restore_is_idempotent_witness:
  "loop_body sample_env sample_start = Inr sample_pass1 \<and>
   rolled_back (events_since sample_start sample_pass1) \<and>
   loop_body sample_env sample_pass1 = Inr sample_pass2 \<and>
   rolled_back (events_since sample_pass1 sample_pass2) \<and>
   IsActionRequired actionWriteIterationCheckpoint False \<in> set (events_since sample_pass1 sample_pass2) \<and>
   sol sample_pass2 = sol sample_pass1 \<and> sol_checkpoint sample_pass2 = sol_checkpoint sample_pass1"
proof -
  have a: "rolled_back (events_since sample_start sample_pass1)"
    by (simp add: rolled_back_def sample_events)
  have b: "rolled_back (events_since sample_pass1 sample_pass2)"
    by (simp add: rolled_back_def sample_events)
  have c: "IsActionRequired actionWriteIterationCheckpoint False
             \<in> set (events_since sample_pass1 sample_pass2)"
    by (simp add: sample_events)
  from restore_is_idempotent [OF sample_loop_body1 a sample_loop_body2 b c]
    sample_loop_body1 sample_loop_body2 a b c
  show ?thesis by blast
qed

text \<open>
  C8. The loop returns normally after pass \<open>n + 1\<close> exactly when that is the first pass
  after which the time loop is finished or the coupling is no longer ongoing; after every
  earlier pass neither held, and the body is run again only then. The condition is looked
  at after each pass, the first included.
\<close>

theorem time_loop_stops_at_first_exit:
  "time_loop fuel env s = Some (Inr s') \<longleftrightarrow>
     (\<exists>n<fuel. passes (Suc n) env s = Inr s' \<and>
        (timeLoop_finished env (timeLoop s') \<or> \<not> precice_isCouplingOngoing env (precice s')) \<and>
        (\<forall>m<n. \<exists>sm. passes (Suc m) env s = Inr sm \<and>
           \<not> timeLoop_finished env (timeLoop sm) \<and> precice_isCouplingOngoing env (precice sm)))"
proof (induction fuel arbitrary: s)
  case 0
  show ?case by simp
next
  case (Suc fuel)
  show ?case
  proof (cases "loop_body env s")
    case (Inl e)
    then show ?thesis by simp
  next
    case (Inr s1)
    show ?thesis
    proof (cases "loop_condition env s1")
      case False
      have "s1 = s' \<longleftrightarrow>
         (\<exists>n<Suc fuel. passes n env s1 = Inr s' \<and>
            (timeLoop_finished env (timeLoop s') \<or> \<not> precice_isCouplingOngoing env (precice s')) \<and>
            (\<forall>m<n. \<exists>sm. passes m env s1 = Inr sm \<and>
               \<not> timeLoop_finished env (timeLoop sm) \<and> precice_isCouplingOngoing env (precice sm)))"
        (is "?L \<longleftrightarrow> ?R")
      proof
        assume ?L
        with False have "passes 0 env s1 = Inr s' \<and>
            (timeLoop_finished env (timeLoop s') \<or> \<not> precice_isCouplingOngoing env (precice s'))"
          by (auto simp: loop_condition_def)
        then show ?R by (intro exI [of _ 0]) simp
      next
        assume ?R
        then obtain n where n: "passes n env s1 = Inr s'"
          "\<forall>m<n. \<exists>sm. passes m env s1 = Inr sm \<and>
               \<not> timeLoop_finished env (timeLoop sm) \<and> precice_isCouplingOngoing env (precice sm)"
          by blast
        have "n = 0"
        proof (rule ccontr)
          assume "n \<noteq> 0"
          then have "0 < n" by simp
          with n(2) obtain sm where "passes 0 env s1 = Inr sm"
            "\<not> timeLoop_finished env (timeLoop sm)" "precice_isCouplingOngoing env (precice sm)"
            by blast
          with False show False by (simp add: loop_condition_def)
        qed
        with n(1) show ?L by simp
      qed
      with Inr False show ?thesis by simp
    next
      case True
      have step: "time_loop (Suc fuel) env s = time_loop fuel env s1"
        using Inr True by simp
      have "(\<exists>n<fuel. passes (Suc n) env s1 = Inr s' \<and>
        (timeLoop_finished env (timeLoop s') \<or> \<not> precice_isCouplingOngoing env (precice s')) \<and>
        (\<forall>m<n. \<exists>sm. passes (Suc m) env s1 = Inr sm \<and>
           \<not> timeLoop_finished env (timeLoop sm) \<and> precice_isCouplingOngoing env (precice sm)))
        \<longleftrightarrow>
        (\<exists>n<Suc fuel. passes n env s1 = Inr s' \<and>
            (timeLoop_finished env (timeLoop s') \<or> \<not> precice_isCouplingOngoing env (precice s')) \<and>
            (\<forall>m<n. \<exists>sm. passes m env s1 = Inr sm \<and>
               \<not> timeLoop_finished env (timeLoop sm) \<and> precice_isCouplingOngoing env (precice sm)))"
        (is "?A \<longleftrightarrow> ?B")
      proof
        assume ?A
        then obtain n where n: "n < fuel" "passes (Suc n) env s1 = Inr s'"
          "timeLoop_finished env (timeLoop s') \<or> \<not> precice_isCouplingOngoing env (precice s')"
          "\<forall>m<n. \<exists>sm. passes (Suc m) env s1 = Inr sm \<and>
           \<not> timeLoop_finished env (timeLoop sm) \<and> precice_isCouplingOngoing env (precice sm)"
          by blast
        have "\<exists>sm. passes m env s1 = Inr sm \<and>
               \<not> timeLoop_finished env (timeLoop sm) \<and> precice_isCouplingOngoing env (precice sm)"
          if "m < Suc n" for m
        proof (cases m)
          case 0
          with True show ?thesis by (simp add: loop_condition_def)
        next
          case (Suc k)
          with that have "k < n" by simp
          with n(4) Suc show ?thesis by blast
        qed
        with n(1,2,3) show ?B by (intro exI [of _ "Suc n"]) blast
      next
        assume ?B
        then obtain n where n: "n < Suc fuel" "passes n env s1 = Inr s'"
          "timeLoop_finished env (timeLoop s') \<or> \<not> precice_isCouplingOngoing env (precice s')"
          "\<forall>m<n. \<exists>sm. passes m env s1 = Inr sm \<and>
               \<not> timeLoop_finished env (timeLoop sm) \<and> precice_isCouplingOngoing env (precice sm)"
          by blast
        have "n \<noteq> 0"
        proof
          assume "n = 0"
          with n(2) have "s' = s1" by simp
          with n(3) True show False by (simp add: loop_condition_def)
        qed
        then obtain k where k: "n = Suc k" by (cases n) auto
        with n have "k < fuel" "passes (Suc k) env s1 = Inr s'"
          "\<forall>m<k. \<exists>sm. passes (Suc m) env s1 = Inr sm \<and>
           \<not> timeLoop_finished env (timeLoop sm) \<and> precice_isCouplingOngoing env (precice sm)"
          by auto
        with n(3) show ?A by blast
      qed
      with step Suc.IH [of s1] Inr show ?thesis by simp
    qed
  qed
qed

theorem time_loop_stops_at_first_exit_witness:
  "time_loop 4 sample_env sample_start = Some (Inr sample_pass4) \<and>
   (\<exists>n<4. passes (Suc n) sample_env sample_start = Inr sample_pass4 \<and>
      (timeLoop_finished sample_env (timeLoop sample_pass4) \<or>
       \<not> precice_isCouplingOngoing sample_env (precice sample_pass4)) \<and>
      (\<forall>m<n. \<exists>sm. passes (Suc m) sample_env sample_start = Inr sm \<and>
         \<not> timeLoop_finished sample_env (timeLoop sm) \<and>
         precice_isCouplingOngoing sample_env (precice sm)))"
  using time_loop_stops_at_first_exit [of 4 sample_env sample_start sample_pass4] sample_time_loop
  by simp

text \<open>
  C9. Whenever \<^verbatim>\<open>main\<close> returns, its value is the code the specification gives for the
  way the \<^verbatim>\<open>try\<close> block ended: 0 when it ran to the end, 1 for a parameter exception,
  2 for a DGF exception, 3 for any other exception derived from \<^verbatim>\<open>Dune::Exception\<close>,
  4 for anything else.
\<close>

theorem exit_codes:
  "main_solidenergy fuel env = map_option spec_exit_code (try_block fuel env)"
proof (cases "try_block fuel env")
  case None
  then show ?thesis by (simp add: main_solidenergy_def)
next
  case (Some r)
  show ?thesis
  proof (cases r)
    case (Inl e)
    with Some show ?thesis
      by (cases e) (simp_all add: main_solidenergy_def catch_handlers_def)
  next
    case (Inr s)
    with Some show ?thesis by (simp add: main_solidenergy_def)
  qed
qed

text \<open>
  C10. When the solid-energy driver runs to the end, its trace splits at the start of the
  time loop: before it exactly one frame was written, at time 0, and no pass had been
  accepted; after it one frame was written per accepted pass. So the frames number one more
  than the accepted passes, and they do so after any number of completed passes as well.
  The Darcy driver, which has no coupling loop, also writes its first frame at time 0,
  before its only solve, and one frame after it.
\<close>

theorem frames_are_accepted_plus_one:
  "(try_block fuel env = Some (Inr s) \<longrightarrow>
      (\<exists>before after. trace s = before @ [TimeLoop_start] @ after \<and>
         vtk_frames before = [0] \<and> accepted_iterations before = 0 \<and>
         length (vtk_frames after) = accepted_iterations after) \<and>
      hd (vtk_frames (trace s)) = 0 \<and>
      length (vtk_frames (trace s)) = accepted_iterations (trace s) + 1) \<and>
   (startup env = Inr s0 \<and> passes n env (start_timeLoop env s0) = Inr sn \<longrightarrow>
      hd (vtk_frames (trace sn)) = 0 \<and>
      length (vtk_frames (trace sn)) = accepted_iterations (trace sn) + 1) \<and>
   (main_darcy denv = Inr (code, x, tr) \<longrightarrow>
      tr = [AnnounceSolver, VtkWrite 0, Solve, VtkWrite 1, PrintDarcyL2Error] \<and>
      vtk_frames tr = [0, 1] \<and>
      length (vtk_frames tr) = count_list tr Solve + 1)"
proof -
  have solid: "(\<exists>before after. trace s = before @ [TimeLoop_start] @ after \<and>
         vtk_frames before = [0] \<and> accepted_iterations before = 0 \<and>
         length (vtk_frames after) = accepted_iterations after) \<and>
      hd (vtk_frames (trace s)) = 0 \<and>
      length (vtk_frames (trace s)) = accepted_iterations (trace s) + 1"
    if run: "try_block fuel env = Some (Inr s)"
  proof -
    from run obtain s0 where s0: "startup env = Inr s0"
      by (cases "startup env") (auto simp: try_block_def)
    from run s0 obtain s1 where s1: "time_loop fuel env (start_timeLoop env s0) = Some (Inr s1)"
      and s: "s = shutdown env s1"
      by (auto simp: try_block_def split: option.splits sum.splits)
    from time_loop_frames [OF s1] obtain evs where
      evs: "trace s1 = trace (start_timeLoop env s0) @ evs"
        "length (vtk_frames evs) = accepted_iterations evs"
      by blast
    let ?after = "evs @ [TimeLoop_finalize, Finalize]"
    have tr: "trace s = trace s0 @ [TimeLoop_start] @ ?after"
      using s evs(1) by (simp add: shutdown_def start_timeLoop_def)
    have after: "length (vtk_frames ?after) = accepted_iterations ?after"
      using evs(2) by (simp add: vtk_frames_append accepted_iterations_append)
        (simp add: accepted_iterations_def)
    have split: "\<exists>before after. trace s = before @ [TimeLoop_start] @ after \<and>
         vtk_frames before = [0] \<and> accepted_iterations before = 0 \<and>
         length (vtk_frames after) = accepted_iterations after"
      using tr after startup_frames [OF s0] by blast
    have frames: "vtk_frames (trace s) = 0 # vtk_frames ?after"
      using startup_frames [OF s0] by (simp add: tr vtk_frames_append)
    have count: "accepted_iterations (trace s) = accepted_iterations ?after"
      using startup_frames [OF s0]
      by (simp add: tr accepted_iterations_append) (simp add: accepted_iterations_def)
    from split frames count after show ?thesis by simp
  qed
  have running: "hd (vtk_frames (trace sn)) = 0 \<and>
      length (vtk_frames (trace sn)) = accepted_iterations (trace sn) + 1"
    if s0: "startup env = Inr s0" and sn: "passes n env (start_timeLoop env s0) = Inr sn"
  proof -
    from passes_frames [OF sn] obtain evs where
      evs: "trace sn = trace (start_timeLoop env s0) @ evs"
        "length (vtk_frames evs) = accepted_iterations evs"
      by blast
    have tr: "trace sn = trace s0 @ [TimeLoop_start] @ evs"
      using evs(1) by (simp add: start_timeLoop_def)
    have frames: "vtk_frames (trace sn) = 0 # vtk_frames evs"
      using startup_frames [OF s0] by (simp add: tr vtk_frames_append)
    have count: "accepted_iterations (trace sn) = accepted_iterations evs"
      using startup_frames [OF s0]
      by (simp add: tr accepted_iterations_append) (simp add: accepted_iterations_def)
    from frames count evs(2) show ?thesis by simp
  qed
  have darcy: "tr = [AnnounceSolver, VtkWrite 0, Solve, VtkWrite 1, PrintDarcyL2Error] \<and>
      vtk_frames tr = [0, 1] \<and> length (vtk_frames tr) = count_list tr Solve + 1"
    if "main_darcy denv = Inr (code, x, tr)"
    using that by (auto simp: main_darcy_def split: sum.splits)
  from solid running darcy show ?thesis by blast
qed

theorem frames_are_accepted_plus_one_witness:
  "try_block 4 sample_env = Some (Inr (shutdown sample_env sample_pass4)) \<and>
   vtk_frames (trace (shutdown sample_env sample_pass4)) = [0, 1 / 2, 1] \<and>
   accepted_iterations (trace (shutdown sample_env sample_pass4)) = 2 \<and>
   passes 3 sample_env sample_start = Inr sample_pass3 \<and>
   vtk_frames (trace sample_pass3) = [0, 1 / 2] \<and>
   accepted_iterations (trace sample_pass3) = 1 \<and>
   main_darcy sample_darcy_env =
     Inr (0, 1, [AnnounceSolver, VtkWrite 0, Solve, VtkWrite 1, PrintDarcyL2Error])"
proof -
  have run: "try_block 4 sample_env = Some (Inr (shutdown sample_env sample_pass4))"
    by (simp add: try_block_def sample_startup sample_start_timeLoop sample_time_loop)
  have darcy: "main_darcy sample_darcy_env =
     Inr (0, 1, [AnnounceSolver, VtkWrite 0, Solve, VtkWrite 1, PrintDarcyL2Error])"
    by (simp add: main_darcy_def sample_darcy_env_def)
  have frames4: "vtk_frames (trace (shutdown sample_env sample_pass4)) = [0, 1 / 2, 1]"
    by (simp add: shutdown_def sample_pass4_def sample_pass3_def sample_pass2_def
          sample_pass1_def sample_start_def)
  have frames3: "vtk_frames (trace sample_pass3) = [0, 1 / 2]"
    by (simp add: sample_pass3_def sample_pass2_def sample_pass1_def sample_start_def)
  have started: "startup sample_env = Inr (sample_start \<lparr>trace := butlast (trace sample_start)\<rparr>) \<and>
      passes 3 sample_env
        (start_timeLoop sample_env (sample_start \<lparr>trace := butlast (trace sample_start)\<rparr>)) =
      Inr sample_pass3"
    by (simp only: sample_startup sample_start_timeLoop sample_passes3)
  from frames_are_accepted_plus_one
         [of 4 sample_env "shutdown sample_env sample_pass4"
            "sample_start \<lparr>trace := butlast (trace sample_start)\<rparr>" 3 sample_pass3
            sample_darcy_env 0 1
            "[AnnounceSolver, VtkWrite 0, Solve, VtkWrite 1, PrintDarcyL2Error]"]
    run darcy frames4 frames3 started sample_passes3
  show ?thesis by simp
qed

end
